theory Spec2Isabelle
  imports Complex_Main "HOL-Library.AList" "HOL-Library.Char_ord" "HOL-Library.List_Lexorder"
begin

section \<open>Python strings and dictionaries\<close>

text \<open>
  Strings are byte lists.  \<^verbatim>\<open>str.lower()\<close> is modelled on the ASCII letters, which is
  what the registry keys of this program are made of; other bytes are left alone.
\<close>

definition lower_char :: "char \<Rightarrow> char" where
  "lower_char c =
     (let n = (of_char c :: nat) in if 65 \<le> n \<and> n \<le> 90 then char_of (n + 32) else c)"

definition lower :: "string \<Rightarrow> string" where
  "lower s = map lower_char s"

text \<open>\<^verbatim>\<open>sep.join(xs)\<close>\<close>

fun join :: "string \<Rightarrow> string list \<Rightarrow> string" where
  "join sep [] = []"
| "join sep [x] = x"
| "join sep (x # y # ys) = x @ sep @ join sep (y # ys)"

text \<open>
  A Python \<^verbatim>\<open>dict\<close> keeps insertion order, and \<^verbatim>\<open>", ".join(d.keys())\<close> shows it, so a
  dictionary is an association list with distinct keys.  \<^verbatim>\<open>d[k] = v\<close> is
  \<^const>\<open>AList.update\<close>: an existing key keeps its place and gets the new value, a new key
  goes to the end.
\<close>

type_synonym ('k, 'v) pydict = "('k \<times> 'v) list"

definition keys :: "('k, 'v) pydict \<Rightarrow> 'k list" where
  "keys d = map fst d"

definition quote :: string where
  "quote = [CHR 0x27]"

section \<open>Errors\<close>

text \<open>
  \<open>ValueError msg\<close> is a Python \<^verbatim>\<open>ValueError\<close> with its message: the text the
  repository's code builds when it raises one itself, the library's wording (shortened)
  when a library call raises it.  \<open>TypeError msg\<close> is what Python raises when a class
  that takes no arguments is called with some.
\<close>

datatype error = ValueError string | TypeError string

section \<open>scaler\_factory.py\<close>

datatype scaler_class =
  NoScaler | StandardScaler | MinMaxScaler | RobustScaler | UserScaler string

text \<open>\<^verbatim>\<open>scaler_class()\<close>: a new, unfit instance of the class.\<close>

datatype scaler = Instance scaler_class

text \<open>The two class-level dictionaries of \<^verbatim>\<open>ScalerFactory\<close>.\<close>

record scaler_factory =
  scaler_registry :: "(string, scaler_class) pydict"
  descriptions :: "(string, string) pydict"

definition initial_scaler_factory :: scaler_factory where
  "initial_scaler_factory =
     \<lparr> scaler_registry =
         [(''none'', NoScaler), (''standard'', StandardScaler),
          (''minmax'', MinMaxScaler), (''robust'', RobustScaler)],
       descriptions =
         [(''none'', ''No scaling (pass-through)''),
          (''standard'', ''StandardScaler: Z-score normalization (mean=0, std=1)''),
          (''minmax'', ''MinMaxScaler: Scale features to [0, 1] range''),
          (''robust'', ''RobustScaler: Scale using median and IQR (robust to outliers)'')] \<rparr>"

definition unknown_scaler_message :: "string \<Rightarrow> string list \<Rightarrow> string" where
  "unknown_scaler_message scaler_type ks =
     ''Unknown scaler type: '' @ quote @ scaler_type @ quote @ ''. '' @
     ''Available scalers: '' @ join '', '' ks"

definition create_scaler :: "scaler_factory \<Rightarrow> string \<Rightarrow> error + scaler" where
  "create_scaler F scaler_type =
     (let scaler_type = lower scaler_type in
      case map_of (scaler_registry F) scaler_type of
        None \<Rightarrow>
          (let available = keys (scaler_registry F)
           in Inl (ValueError (unknown_scaler_message scaler_type available)))
      | Some scaler_class \<Rightarrow> Inr (Instance scaler_class))"

definition get_description :: "scaler_factory \<Rightarrow> string \<Rightarrow> string" where
  "get_description F scaler_type =
     (case map_of (descriptions F) scaler_type of
        None \<Rightarrow> ''Unknown scaler''
      | Some d \<Rightarrow> d)"

text \<open>\<^verbatim>\<open>description or name\<close>: the empty description is falsy.\<close>

definition register_scaler ::
  "scaler_factory \<Rightarrow> string \<Rightarrow> scaler_class \<Rightarrow> string \<Rightarrow> scaler_factory" where
  "register_scaler F name scaler_class description =
     \<lparr> scaler_registry = AList.update name scaler_class (scaler_registry F),
       descriptions =
         AList.update name (if description = [] then name else description) (descriptions F) \<rparr>"

definition list_available_scalers :: "scaler_factory \<Rightarrow> string list" where
  "list_available_scalers F = keys (scaler_registry F)"

text \<open>
  The factory states a program can be in: the class as defined, then any number of
  registrations.
\<close>

inductive reachable :: "scaler_factory \<Rightarrow> bool" where
  init: "reachable initial_scaler_factory"
| reg: "reachable F \<Longrightarrow> reachable (register_scaler F name c d)"

section \<open>sampling\_strategy.py\<close>

datatype strategy_class =
  NoSamplingStrategy | RandomOversamplingStrategy | SMOTEStrategy | ADASYNStrategy

text \<open>
  A strategy object: its class and the two attributes \<^verbatim>\<open>__init__\<close> stores,
  \<^verbatim>\<open>sampling_strategy\<close> and \<^verbatim>\<open>random_state\<close>.  \<^verbatim>\<open>NoSamplingStrategy\<close> has neither.
\<close>

datatype strategy =
  NoSampling
| RandomOversampling string "int option"
| SMOTEStrat string "int option"
| ADASYNStrat string "int option"



record strategy_factory =
  strategy_registry :: "(string, strategy_class) pydict"




definition register_strategy ::
  "strategy_factory \<Rightarrow> string \<Rightarrow> strategy_class \<Rightarrow> strategy_factory" where
  "register_strategy G name strategy_class =
     \<lparr> strategy_registry = AList.update name strategy_class (strategy_registry G) \<rparr>"


subsection \<open>Resampling\<close>

text \<open>
  The samplers themselves belong to the imbalanced-learn library, so they are a
  parameter.  What the program relies on is the library's handling of
  \<^verbatim>\<open>random_state\<close>: every sampler draws its random numbers from a generator; with
  \<^verbatim>\<open>random_state=None\<close> that generator is the process-wide one, whose state \<open>'g\<close> is
  read and advanced, and with an integer seed it is a new generator made from the seed,
  and the process-wide one is not touched.  \<open>fit_resample_with\<close> is the sampler run on
  a given generator state: it returns the resampled data (or the library's error) and
  the generator state it leaves.
\<close>

datatype sampler = RandomOverSampler | SMOTE | ADASYN

record ('g, 'x, 'y) imblearn =
  seeded :: "int \<Rightarrow> 'g"
  fit_resample_with ::
    "sampler \<Rightarrow> string \<Rightarrow> 'g \<Rightarrow> 'x \<Rightarrow> 'y \<Rightarrow> (error + 'x \<times> 'y) \<times> 'g"

text \<open>
  \<^verbatim>\<open>Sampler(sampling_strategy=s, random_state=r).fit_resample(X, y)\<close> in a process whose
  generator is in state \<open>g\<close>.
\<close>

definition fit_resample ::
  "('g, 'x, 'y) imblearn \<Rightarrow> sampler \<Rightarrow> string \<Rightarrow> int option \<Rightarrow> 'g \<Rightarrow> 'x \<Rightarrow> 'y
     \<Rightarrow> (error + 'x \<times> 'y) \<times> 'g" where
  "fit_resample L k s r g X y =
     (case r of
        None \<Rightarrow> fit_resample_with L k s g X y
      | Some seed \<Rightarrow> (fst (fit_resample_with L k s (seeded L seed) X y), g))"

text \<open>
  \<^verbatim>\<open>strategy.resample(X, y)\<close>: each call builds a new sampler from the attributes of the
  strategy object and runs it; the strategy object itself is not changed.
\<close>

fun resample ::
  "('g, 'x, 'y) imblearn \<Rightarrow> strategy \<Rightarrow> 'g \<Rightarrow> 'x \<Rightarrow> 'y \<Rightarrow> (error + 'x \<times> 'y) \<times> 'g" where
  "resample L NoSampling g X y = (Inr (X, y), g)"
| "resample L (RandomOversampling s r) g X y = fit_resample L RandomOverSampler s r g X y"
| "resample L (SMOTEStrat s r) g X y = fit_resample L SMOTE s r g X y"
| "resample L (ADASYNStrat s r) g X y = fit_resample L ADASYN s r g X y"

text \<open>
  A small library instance to run examples on: the generator state is a counter, a seed
  sets it, and every sampler appends as many copies of the first row as the counter says
  (modulo 3) and steps the counter.  The theorems below hold for every instance.
\<close>

definition counter_imblearn :: "(nat, int list list, int list) imblearn" where
  "counter_imblearn =
     \<lparr> seeded = (\<lambda>seed. nat \<bar>seed\<bar>),
       fit_resample_with = (\<lambda>k s g X y.
         (Inr (X @ replicate (g mod 3) (hd (X @ [[]])), y @ replicate (g mod 3) (hd (y @ [1]))),
          Suc g)) \<rparr>"

section \<open>models.py: the evaluator\<close>









subsection \<open>The library's metrics on integer labels\<close>














section \<open>preprocessor.py\<close>

subsection \<open>Tables\<close>

text \<open>
  A cell of a table is a scalar: a text, an integer, a float (its rational value), a
  boolean, or the missing-value marker (NaN).
\<close>

datatype cell = CStr string | CInt int | CFloat rat | CBool bool | CNull

text \<open>
  A \<^verbatim>\<open>DataFrame\<close>: the number of rows of its index and its columns in order, each a name
  and its values.  In a well-formed table the names are distinct and every column has one
  value per row.
\<close>

record frame =
  nrows :: nat
  cols :: "(string \<times> cell list) list"

definition columns :: "frame \<Rightarrow> string list" where
  "columns f = map fst (cols f)"



text \<open>\<^verbatim>\<open>data.drop(columns=names)\<close>\<close>

definition drop_columns :: "string list \<Rightarrow> frame \<Rightarrow> frame" where
  "drop_columns names f = f\<lparr>cols := filter (\<lambda>(c, vs). c \<notin> set names) (cols f)\<rparr>"

text \<open>\<^verbatim>\<open>data[c] = g(data[c])\<close> for a column \<open>c\<close> of the table: the column keeps its place.\<close>

definition update_col :: "string \<Rightarrow> (cell list \<Rightarrow> cell list) \<Rightarrow> frame \<Rightarrow> frame" where
  "update_col c g f = f\<lparr>cols := map (\<lambda>(n, vs). if n = c then (n, g vs) else (n, vs)) (cols f)\<rparr>"

text \<open>
  \<^verbatim>\<open>data[c] = vs\<close>: an existing column is overwritten where it stands, a new one is
  appended.
\<close>

definition assign_col :: "string \<Rightarrow> cell list \<Rightarrow> frame \<Rightarrow> frame" where
  "assign_col c vs f = f\<lparr>cols := AList.update c vs (cols f)\<rparr>"

subsection \<open>Scalar conversions\<close>

text \<open>Decimal digits of an integer, as \<^verbatim>\<open>str\<close> prints it.\<close>

definition digit_char :: "nat \<Rightarrow> char" where
  "digit_char d = char_of (48 + d)"

fun str_nat :: "nat \<Rightarrow> string" where
  "str_nat n = (if n < 10 then [digit_char n] else str_nat (n div 10) @ [digit_char (n mod 10)])"

declare str_nat.simps [simp del]

definition str_int :: "int \<Rightarrow> string" where
  "str_int i = (if i < 0 then CHR ''-'' # str_nat (nat (- i)) else str_nat (nat i))"

text \<open>
  The conversions between texts and numbers that Python and pandas implement are a
  parameter: how a float prints, which texts \<^verbatim>\<open>pd.to_numeric\<close> reads as a number (with
  \<^verbatim>\<open>errors='coerce'\<close> every other text becomes NaN), which texts \<^verbatim>\<open>int\<close> accepts, and the
  order in which pandas lists the distinct values of a column as categories.
\<close>

record conversions =
  float_repr :: "rat \<Rightarrow> string"
  parse_float :: "string \<Rightarrow> rat option"
  parse_int :: "string \<Rightarrow> int option"
  level_order :: "cell list \<Rightarrow> cell list"

text \<open>\<^verbatim>\<open>str(v)\<close>, which is what \<^verbatim>\<open>astype(str)\<close> and the indicator column names use.\<close>

fun py_str :: "conversions \<Rightarrow> cell \<Rightarrow> string" where
  "py_str L (CStr s) = s"
| "py_str L (CInt i) = str_int i"
| "py_str L (CFloat q) = float_repr L q"
| "py_str L (CBool b) = (if b then ''True'' else ''False'')"
| "py_str L CNull = ''nan''"

text \<open>\<^verbatim>\<open>.map({'Yes': True, 'No': False})\<close>: a value that is not a key becomes NaN.\<close>

fun map_yes_no :: "cell \<Rightarrow> cell" where
  "map_yes_no (CStr s) =
     (if s = ''Yes'' then CBool True else if s = ''No'' then CBool False else CNull)"
| "map_yes_no c = CNull"

text \<open>\<^verbatim>\<open>.fillna(False)\<close>\<close>

definition fillna_False :: "cell \<Rightarrow> cell" where
  "fillna_False c = (if c = CNull then CBool False else c)"

text \<open>\<^verbatim>\<open>pd.to_numeric(errors='coerce').astype(float)\<close> on one value.\<close>

fun to_numeric :: "conversions \<Rightarrow> cell \<Rightarrow> cell" where
  "to_numeric L (CStr s) = (case parse_float L s of Some q \<Rightarrow> CFloat q | None \<Rightarrow> CNull)"
| "to_numeric L (CInt i) = CFloat (of_int i)"
| "to_numeric L (CFloat q) = CFloat q"
| "to_numeric L (CBool b) = CFloat (if b then 1 else 0)"
| "to_numeric L CNull = CNull"

text \<open>
  \<^verbatim>\<open>astype(int)\<close> on one value: a float is truncated towards zero, NaN and a text that
  is not an integer raise.
\<close>

fun astype_int :: "conversions \<Rightarrow> cell \<Rightarrow> error + int" where
  "astype_int L (CInt i) = Inr i"
| "astype_int L (CBool b) = Inr (if b then 1 else 0)"
| "astype_int L (CFloat q) = Inr (if q < 0 then \<lceil>q\<rceil> else \<lfloor>q\<rfloor>)"
| "astype_int L (CStr s) =
     (case parse_int L s of
        Some i \<Rightarrow> Inr i
      | None \<Rightarrow> Inl (ValueError ''invalid literal for int() with base 10''))"
| "astype_int L CNull =
     Inl (ValueError ''Cannot convert non-finite values (NA or inf) to integer'')"

text \<open>The conversion of a whole column stops at the first value that raises.\<close>

fun astype_int_all :: "conversions \<Rightarrow> cell list \<Rightarrow> error + int list" where
  "astype_int_all L [] = Inr []"
| "astype_int_all L (v # vs) =
     (case astype_int L v of
        Inl e \<Rightarrow> Inl e
      | Inr i \<Rightarrow> (case astype_int_all L vs of Inl e \<Rightarrow> Inl e | Inr is \<Rightarrow> Inr (i # is)))"

subsection \<open>The steps of \<^verbatim>\<open>InsurancePreprocessor.process\<close>\<close>

text \<open>1. Drop identifiers.\<close>

definition drop_identifiers :: "frame \<Rightarrow> frame" where
  "drop_identifiers data =
     (if ''policy_id'' \<in> set (columns data) then drop_columns [''policy_id''] data else data)"

text \<open>2. Boolean conversion.\<close>

definition boolean_cols :: "string list" where
  "boolean_cols =
     [''is_parking_camera'', ''is_tpms'', ''is_adjustable_steering'', ''is_esc'',
      ''is_parking_sensors'', ''is_front_fog_lights'', ''is_rear_window_wiper'',
      ''is_rear_window_washer'', ''is_rear_window_defogger'', ''is_brake_assist'',
      ''is_power_door_locks'', ''is_power_steering'', ''is_central_locking'',
      ''is_driver_seat_height_adjustable'', ''is_day_night_rear_view_mirror'',
      ''is_ecw'', ''is_speed_alert'']"

definition convert_booleans :: "frame \<Rightarrow> frame" where
  "convert_booleans data =
     (let existing_bool_cols = filter (\<lambda>col. col \<in> set (columns data)) boolean_cols
      in foldl (\<lambda>data col. update_col col (map (fillna_False \<circ> map_yes_no)) data)
           data existing_bool_cols)"

text \<open>3. Float conversion.\<close>

definition float_cols :: "string list" where
  "float_cols =
     [''length'', ''width'', ''height'', ''gross_weight'', ''airbags'', ''population_density'']"

definition convert_floats :: "conversions \<Rightarrow> frame \<Rightarrow> frame" where
  "convert_floats L data =
     foldl (\<lambda>data col. if col \<in> set (columns data)
                        then update_col col (map (to_numeric L)) data else data)
       data float_cols"

text \<open>
  4. Ordinal encoding of \<^verbatim>\<open>ncap_rating\<close>.  \<^verbatim>\<open>OrdinalEncoder(categories=[cats])\<close> is
  built with the library's default \<^verbatim>\<open>handle_unknown='error'\<close>: fitting raises
  \<^verbatim>\<open>ValueError\<close> on a value that is not one of the categories, and on a column without
  rows.  Otherwise each value is encoded as the position of its category, a float.
\<close>

definition ncap_categories :: "string list" where
  "ncap_categories = [''0'', ''1'', ''2'', ''3'', ''4'', ''5'']"

fun index_of :: "'a list \<Rightarrow> 'a \<Rightarrow> nat" where
  "index_of [] x = 0"
| "index_of (c # cs) x = (if c = x then 0 else Suc (index_of cs x))"

definition ordinal_fit_transform :: "string list \<Rightarrow> string list \<Rightarrow> error + cell list" where
  "ordinal_fit_transform categories xs =
     (if xs = [] then Inl (ValueError ''Found array with 0 sample(s)'')
      else if list_ex (\<lambda>x. x \<notin> set categories) xs
      then Inl (ValueError ''Found unknown categories during fit'')
      else Inr (map (\<lambda>x. CFloat (of_nat (index_of categories x))) xs))"

definition ncap_as_str :: "conversions \<Rightarrow> frame \<Rightarrow> frame" where
  "ncap_as_str L data = update_col ''ncap_rating'' (map (CStr \<circ> py_str L)) data"

definition encode_ncap :: "conversions \<Rightarrow> frame \<Rightarrow> error + frame" where
  "encode_ncap L data =
     (case map_of (cols data) ''ncap_rating'' of
        None \<Rightarrow> Inr data
      | Some vs \<Rightarrow>
          (let data = ncap_as_str L data
           in case ordinal_fit_transform ncap_categories (map (py_str L) vs) of
                Inl e \<Rightarrow> Inl e
              | Inr codes \<Rightarrow>
                  Inr (drop_columns [''ncap_rating'']
                         (assign_col ''NCAP_Rating'' codes data))))"

text \<open>
  5. One-hot encoding.  \<^verbatim>\<open>pd.get_dummies(data, columns=cs, drop_first=True)\<close> keeps the
  columns that are not encoded, in front, and appends for each encoded column one boolean
  column per category but the first, named \<^verbatim>\<open><column>_<category>\<close>; NaN is no category.
  When every column of the table is encoded, nothing is kept in front; the pieces are then
  concatenated, and pandas raises \<^verbatim>\<open>ValueError\<close> when there is no piece at all, which
  is the case of a table without columns.
\<close>

definition categorical_cols :: "string list" where
  "categorical_cols =
     [''transmission_type'', ''cylinder'', ''gear_box'', ''rear_brakes_type'',
      ''steering_type'', ''fuel_type'', ''make'', ''segment'', ''model'',
      ''engine_type'', ''max_torque'', ''max_power'', ''area_cluster'', ''displacement'']"

definition dummies_1d :: "conversions \<Rightarrow> string \<Rightarrow> cell list \<Rightarrow> (string \<times> cell list) list" where
  "dummies_1d L col vs =
     (let levels = level_order L (remdups (filter (\<lambda>v. v \<noteq> CNull) vs))
      in map (\<lambda>l. (col @ ''_'' @ py_str L l, map (\<lambda>v. CBool (v = l)) vs)) (tl levels))"

fun encoded_pieces ::
  "conversions \<Rightarrow> frame \<Rightarrow> string list \<Rightarrow> (string \<times> cell list) list list" where
  "encoded_pieces L data [] = []"
| "encoded_pieces L data (c # cs) =
     (case map_of (cols data) c of
        None \<Rightarrow> encoded_pieces L data cs
      | Some vs \<Rightarrow> dummies_1d L c vs # encoded_pieces L data cs)"

definition get_dummies :: "conversions \<Rightarrow> frame \<Rightarrow> string list \<Rightarrow> error + frame" where
  "get_dummies L data cs =
     (let with_dummies =
            (if length cs = length (cols data) then [] else [cols (drop_columns cs data)])
            @ encoded_pieces L data cs
      in if with_dummies = [] then Inl (ValueError ''No objects to concatenate'')
         else Inr \<lparr> nrows = nrows data, cols = concat with_dummies \<rparr>)"

definition one_hot :: "conversions \<Rightarrow> frame \<Rightarrow> error + frame" where
  "one_hot L data =
     get_dummies L data (filter (\<lambda>c. c \<in> set (columns data)) categorical_cols)"

text \<open>6. Separate the target variable.\<close>

definition target_col :: string where
  "target_col = ''is_claim''"

definition missing_target_message :: string where
  "missing_target_message =
     ''Target column '' @ quote @ target_col @ quote @ '' missing from dataset''"

definition separate_target :: "conversions \<Rightarrow> frame \<Rightarrow> error + frame \<times> int list" where
  "separate_target L data =
     (case map_of (cols data) target_col of
        None \<Rightarrow> Inl (ValueError missing_target_message)
      | Some vs \<Rightarrow>
          (let X = drop_columns [target_col] data
           in case astype_int_all L vs of
                Inl e \<Rightarrow> Inl e
              | Inr y \<Rightarrow> Inr (X, y)))"

text \<open>
  The whole of \<^verbatim>\<open>process\<close> on the value of a table.  \<open>data\<close> starts as a copy of the
  argument.
\<close>

definition process :: "conversions \<Rightarrow> frame \<Rightarrow> error + frame \<times> int list" where
  "process L df =
     (let data = df;
          data = drop_identifiers data;
          data = convert_booleans data;
          data = convert_floats L data
      in case encode_ncap L data of
           Inl e \<Rightarrow> Inl e
         | Inr data \<Rightarrow>
             (case one_hot L data of
                Inl e \<Rightarrow> Inl e
              | Inr data \<Rightarrow> separate_target L data))"

text \<open>Steps 1 to 3 together; they cannot raise.\<close>

definition steps123 :: "conversions \<Rightarrow> frame \<Rightarrow> frame" where
  "steps123 L t = convert_floats L (convert_booleans (drop_identifiers t))"



subsection \<open>\<^verbatim>\<open>process\<close> on objects\<close>

text \<open>
  Tables and series are objects, and some operations of \<^verbatim>\<open>process\<close> write into an
  object (\<^verbatim>\<open>drop(..., inplace=True)\<close>, \<^verbatim>\<open>data[col] = ...\<close>) while others make a new one
  (\<^verbatim>\<open>copy\<close>, \<^verbatim>\<open>get_dummies\<close>, \<^verbatim>\<open>drop\<close>, \<^verbatim>\<open>astype\<close>).  A heap is the list of the objects
  made so far; an address is a position in it, and a new object goes to the end.
\<close>

datatype obj = Frame frame | Series "int list"

type_synonym heap = "obj list"

definition alloc :: "obj \<Rightarrow> heap \<Rightarrow> nat \<times> heap" where
  "alloc v h = (length h, h @ [v])"

definition frame_at :: "heap \<Rightarrow> nat \<Rightarrow> frame option" where
  "frame_at h a =
     (if a < length h then (case h ! a of Frame f \<Rightarrow> Some f | Series y \<Rightarrow> None) else None)"

text \<open>
  \<open>df\<close> is the address of the argument; the result is what \<^verbatim>\<open>process\<close> returns or
  raises, and the heap it leaves.  The variable \<^verbatim>\<open>data\<close> is the address \<open>data\<close> up to
  step 4 and the address of the table made by \<^verbatim>\<open>get_dummies\<close> from step 5 on.
\<close>

definition process_heap :: "conversions \<Rightarrow> heap \<Rightarrow> nat \<Rightarrow> (error + nat \<times> nat) \<times> heap" where
  "process_heap L h df =
     (case frame_at h df of
        None \<Rightarrow> (Inl (TypeError ''process expects a DataFrame''), h)
      | Some f \<Rightarrow>
          (let (data, h) = alloc (Frame f) h;
               d = drop_identifiers f;
               h = h[data := Frame d];
               d = convert_booleans d;
               h = h[data := Frame d];
               d = convert_floats L d;
               h = h[data := Frame d]
           in case encode_ncap L d of
                Inl e \<Rightarrow> (Inl e, h[data := Frame (ncap_as_str L d)])
              | Inr d \<Rightarrow>
                 (let h = h[data := Frame d]
                  in case one_hot L d of
                       Inl e \<Rightarrow> (Inl e, h)
                     | Inr d \<Rightarrow>
                        (let (data, h) = alloc (Frame d) h
                         in case map_of (cols d) target_col of
                              None \<Rightarrow> (Inl (ValueError missing_target_message), h)
                            | Some vs \<Rightarrow>
                               (let (X, h) = alloc (Frame (drop_columns [target_col] d)) h
                                in case astype_int_all L vs of
                                     Inl e \<Rightarrow> (Inl e, h)
                                   | Inr ys \<Rightarrow>
                                      (let (y, h) = alloc (Series ys) h
                                       in (Inr (X, y), h)))))))"

subsection \<open>Conversions for plain decimal texts\<close>

text \<open>
  An instance of the conversions to run \<^verbatim>\<open>process\<close> on examples: \<^verbatim>\<open>int\<close> and
  \<^verbatim>\<open>pd.to_numeric\<close> read an optional minus sign followed by decimal digits, a float
  prints as its decimal expansion (up to 17 digits after the point), and categories are
  sorted when they are all texts or all integers and left in order of appearance
  otherwise.  Python accepts more texts than these; the theorems below hold for every
  instance.
\<close>

definition digit_val :: "char \<Rightarrow> nat option" where
  "digit_val c =
     (let n = (of_char c :: nat) in if 48 \<le> n \<and> n \<le> 57 then Some (n - 48) else None)"

fun digits_val :: "string \<Rightarrow> nat \<Rightarrow> nat option" where
  "digits_val [] acc = Some acc"
| "digits_val (c # cs) acc =
     (case digit_val c of None \<Rightarrow> None | Some d \<Rightarrow> digits_val cs (10 * acc + d))"

definition dec_nat :: "string \<Rightarrow> nat option" where
  "dec_nat s = (if s = [] then None else digits_val s 0)"

definition dec_int :: "string \<Rightarrow> int option" where
  "dec_int s =
     (case s of
        [] \<Rightarrow> None
      | c # r \<Rightarrow> if c = CHR ''-'' then map_option (\<lambda>n. - int n) (dec_nat r)
                 else map_option int (dec_nat s))"

definition dec_float :: "string \<Rightarrow> rat option" where
  "dec_float s = map_option of_int (dec_int s)"

fun frac_digits :: "nat \<Rightarrow> rat \<Rightarrow> string" where
  "frac_digits 0 r = []"
| "frac_digits (Suc k) r =
     (let d = \<lfloor>10 * r\<rfloor>; r' = 10 * r - of_int d
      in digit_char (nat d) # (if r' = 0 then [] else frac_digits k r'))"

definition dec_float_repr :: "rat \<Rightarrow> string" where
  "dec_float_repr q =
     (let a = \<bar>q\<bar>; w = \<lfloor>a\<rfloor>
      in (if q < 0 then ''-'' else []) @ str_nat (nat w) @ ''.'' @ frac_digits 17 (a - of_int w))"

fun str_of :: "cell \<Rightarrow> string option" where
  "str_of (CStr s) = Some s"
| "str_of c = None"

fun int_of :: "cell \<Rightarrow> int option" where
  "int_of (CInt i) = Some i"
| "int_of c = None"

definition sorted_levels :: "cell list \<Rightarrow> cell list" where
  "sorted_levels vs =
     (if list_all (\<lambda>v. str_of v \<noteq> None) vs then map CStr (sort (List.map_filter str_of vs))
      else if list_all (\<lambda>v. int_of v \<noteq> None) vs then map CInt (sort (List.map_filter int_of vs))
      else vs)"

definition decimal :: conversions where
  "decimal =
     \<lparr> float_repr = dec_float_repr, parse_float = dec_float, parse_int = dec_int,
       level_order = sorted_levels \<rparr>"

text \<open>The table of the repository's test \<^verbatim>\<open>test_process_logic\<close>.\<close>

definition raw_data :: frame where
  "raw_data =
     \<lparr> nrows = 2,
       cols =
         [(''policy_id'', [CStr ''123'', CStr ''456'']),
          (''is_parking_camera'', [CStr ''Yes'', CStr ''No'']),
          (''is_claim'', [CInt 1, CInt 0]),
          (''length'', [CStr ''4000'', CStr ''4200'']),
          (''ncap_rating'', [CStr ''3'', CStr ''5'']),
          (''transmission_type'', [CStr ''Manual'', CStr ''Automatic''])] \<rparr>"


text \<open>A table with a boolean column holding both labels, a missing value and another text.\<close>

definition esc_table :: frame where
  "esc_table =
     \<lparr> nrows = 4,
       cols =
         [(''is_esc'', [CStr ''Yes'', CStr ''No'', CNull, CStr ''yes'']),
          (''is_claim'', [CInt 0, CInt 1, CInt 0, CInt 0])] \<rparr>"

section \<open>Properties of the scaler registry\<close>

lemma set_keys: "set (keys d) = dom (map_of d)"
  by (simp add: keys_def dom_map_of_conv_image_fst)

lemma keys_update: "set (keys (AList.update k v d)) = insert k (set (keys d))"
  by (simp add: set_keys update_conv')

lemma map_of_None_keys: "map_of d k = None \<longleftrightarrow> k \<notin> set (keys d)"
  by (simp add: keys_def map_of_eq_None_iff)

lemma lower_standard: "lower ''STANDARD'' = ''standard''"
  by code_simp

lemma lower_Custom: "lower ''Custom'' = ''custom''"
  by code_simp

text \<open>
  Registration followed by creation, for a name that is its own lower-case form: the
  name is listed and creation builds an instance of the class just registered, whatever
  was registered under the name before.
\<close>

lemma register_then_create_lowercase:
  assumes "lower name = name"
  shows "name \<in> set (list_available_scalers (register_scaler F name c d))"
    and "create_scaler (register_scaler F name c d) name = Inr (Instance c)"
  using assms
  by (simp_all add: list_available_scalers_def register_scaler_def keys_update
      create_scaler_def update_conv')

text \<open>
  C4.  After \<^verbatim>\<open>register_scaler("Custom", CustomScaler, "Custom Description")\<close> on the
  factory as defined, \<^verbatim>\<open>"Custom"\<close> is listed, yet \<^verbatim>\<open>create_scaler("Custom")\<close> raises:
  registration stores the name as given, creation looks up its lower-case form.
\<close>

theorem register_then_create_mixed_case:
  "''Custom'' \<in> set (list_available_scalers
      (register_scaler initial_scaler_factory ''Custom'' (UserScaler ''CustomScaler'')
         ''Custom Description''))
   \<and> create_scaler
       (register_scaler initial_scaler_factory ''Custom'' (UserScaler ''CustomScaler'')
          ''Custom Description'') ''Custom''
     = Inl (ValueError (''Unknown scaler type: '' @ quote @ ''custom'' @ quote @
         ''. Available scalers: none, standard, minmax, robust, Custom''))"
  by (simp add: list_available_scalers_def register_scaler_def initial_scaler_factory_def
      keys_def create_scaler_def lower_Custom unknown_scaler_message_def quote_def)





subsection \<open>Descriptions\<close>

lemma reachable_same_keys:
  "reachable F \<Longrightarrow> set (keys (descriptions F)) = set (keys (scaler_registry F))"
proof (induction rule: reachable.induct)
  case init
  show ?case by (simp add: initial_scaler_factory_def keys_def)
next
  case (reg F name c d)
  then show ?case by (simp add: register_scaler_def keys_update)
qed

lemma get_description_registered:
  "get_description (register_scaler F name c d) name = (if d = [] then name else d)"
  by (simp add: get_description_def register_scaler_def update_conv')

text \<open>
  C10.  \<^verbatim>\<open>get_description\<close> is a dictionary \<^verbatim>\<open>get\<close> with a default, so it always
  returns a text: in every factory state reached by registrations, the stored
  description for a registered name and \<^verbatim>\<open>'Unknown scaler'\<close> for any other.  The name is
  looked up as given: \<^verbatim>\<open>"STANDARD"\<close> is created as the standard scaler and described as
  unknown.
\<close>

theorem get_description_case_sensitive:
  "reachable F \<Longrightarrow>
     (name \<in> set (list_available_scalers F) \<longrightarrow>
        map_of (descriptions F) name = Some (get_description F name))
   \<and> (name \<notin> set (list_available_scalers F) \<longrightarrow>
        get_description F name = ''Unknown scaler'')
   \<and> lower ''STANDARD'' \<in> set (list_available_scalers initial_scaler_factory)
   \<and> create_scaler initial_scaler_factory ''STANDARD'' = Inr (Instance StandardScaler)
   \<and> get_description initial_scaler_factory ''STANDARD'' = ''Unknown scaler''"
proof -
  assume r: "reachable F"
  have k: "set (keys (descriptions F)) = set (list_available_scalers F)"
    using reachable_same_keys [OF r] by (simp add: list_available_scalers_def)
  have a: "name \<in> set (list_available_scalers F) \<longrightarrow>
      map_of (descriptions F) name = Some (get_description F name)"
  proof
    assume "name \<in> set (list_available_scalers F)"
    then have "name \<in> dom (map_of (descriptions F))"
      using k by (simp add: set_keys)
    then obtain d where "map_of (descriptions F) name = Some d" by blast
    then show "map_of (descriptions F) name = Some (get_description F name)"
      by (simp add: get_description_def)
  qed
  have b: "name \<notin> set (list_available_scalers F) \<longrightarrow>
      get_description F name = ''Unknown scaler''"
  proof
    assume "name \<notin> set (list_available_scalers F)"
    then have "map_of (descriptions F) name = None"
      using k by (simp add: map_of_None_keys)
    then show "get_description F name = ''Unknown scaler''"
      by (simp add: get_description_def)
  qed
  have c: "lower ''STANDARD'' \<in> set (list_available_scalers initial_scaler_factory)"
    by (simp add: lower_standard list_available_scalers_def initial_scaler_factory_def keys_def)
  have d: "create_scaler initial_scaler_factory ''STANDARD'' = Inr (Instance StandardScaler)"
    by (simp add: create_scaler_def lower_standard initial_scaler_factory_def)
  have e: "get_description initial_scaler_factory ''STANDARD'' = ''Unknown scaler''"
    by (simp add: get_description_def initial_scaler_factory_def)
  from a b c d e show ?thesis by blast
qed

theorem get_description_case_sensitive_witness:
  "reachable (register_scaler initial_scaler_factory ''custom'' (UserScaler ''CustomScaler'')
       ''Custom Description'')
   \<and> get_description (register_scaler initial_scaler_factory ''custom''
         (UserScaler ''CustomScaler'') ''Custom Description'') ''custom''
       = ''Custom Description''
   \<and> get_description (register_scaler initial_scaler_factory ''custom''
         (UserScaler ''CustomScaler'') ''Custom Description'') ''Custom''
       = ''Unknown scaler''"
proof -
  let ?F = "register_scaler initial_scaler_factory ''custom'' (UserScaler ''CustomScaler'')
       ''Custom Description''"
  have r: "reachable ?F"
    by (rule reachable.reg) (rule reachable.init)
  have l: "list_available_scalers ?F = [''none'', ''standard'', ''minmax'', ''robust'', ''custom'']"
    by (simp add: list_available_scalers_def register_scaler_def initial_scaler_factory_def
        keys_def)
  have m: "map_of (descriptions ?F) ''custom'' = Some ''Custom Description''"
    by (simp add: register_scaler_def update_conv')
  from get_description_case_sensitive [OF r, of "''custom''"] l m
  have "get_description ?F ''custom'' = ''Custom Description''" by simp
  moreover from get_description_case_sensitive [OF r, of "''Custom''"] l
  have "get_description ?F ''Custom'' = ''Unknown scaler''" by simp
  ultimately show ?thesis using r by blast
qed

section \<open>Properties of resampling\<close>






text \<open>
  Without a seed the output follows the process-wide generator: the model does tell the
  two cases apart.
\<close>

lemma unseeded_resample_depends_on_generator:
  "fst (resample counter_imblearn (SMOTEStrat ''minority'' None) 1 [[1, 2], [3, 4]] [0, 1])
   \<noteq> fst (resample counter_imblearn (SMOTEStrat ''minority'' None) 2 [[1, 2], [3, 4]] [0, 1])"
  by (simp add: fit_resample_def counter_imblearn_def numeral_2_eq_2)

section \<open>Properties of the evaluator\<close>











section \<open>Properties of the preprocessor\<close>


lemma map_of_filter_fst:
  "map_of (filter (\<lambda>(c, vs). P c) xs) k = (if P k then map_of xs k else None)"
  by (induction xs) auto

lemma map_of_drop_columns:
  "map_of (cols (drop_columns ns f)) c = (if c \<in> set ns then None else map_of (cols f) c)"
  by (simp add: drop_columns_def map_of_filter_fst)

lemma map_of_map_update:
  "map_of (map (\<lambda>(n, vs). if n = c then (n, g vs) else (n, vs)) xs) k =
     (if k = c then map_option g (map_of xs k) else map_of xs k)"
  by (induction xs) auto

lemma map_of_update_col:
  "map_of (cols (update_col n g f)) c =
     (if c = n then map_option g (map_of (cols f) c) else map_of (cols f) c)"
  by (simp add: update_col_def map_of_map_update)

lemma map_of_assign_col:
  "map_of (cols (assign_col n vs f)) c = (if c = n then Some vs else map_of (cols f) c)"
  by (simp add: assign_col_def update_conv')

lemma in_columns_iff: "c \<in> set (columns f) \<longleftrightarrow> map_of (cols f) c \<noteq> None"
  by (simp add: columns_def map_of_eq_None_iff)

lemma nrows_simps [simp]:
  "nrows (drop_columns ns f) = nrows f"
  "nrows (update_col n g f) = nrows f"
  "nrows (assign_col n vs f) = nrows f"
  by (simp_all add: drop_columns_def update_col_def assign_col_def)

lemma map_of_drop_identifiers:
  "map_of (cols (drop_identifiers f)) c = (if c = ''policy_id'' then None else map_of (cols f) c)"
  by (auto simp: drop_identifiers_def map_of_drop_columns in_columns_iff)

lemma map_of_foldl_update_col:
  "distinct cs \<Longrightarrow>
   map_of (cols (foldl (\<lambda>d col. update_col col g d) f cs)) c =
     (if c \<in> set cs then map_option g (map_of (cols f) c) else map_of (cols f) c)"
  by (induction cs arbitrary: f) (auto simp: map_of_update_col)

lemma distinct_boolean_cols: "distinct boolean_cols"
  by (simp add: boolean_cols_def)

lemma map_of_convert_booleans:
  "map_of (cols (convert_booleans f)) c =
     (if c \<in> set boolean_cols
      then map_option (map (fillna_False \<circ> map_yes_no)) (map_of (cols f) c)
      else map_of (cols f) c)"
  by (auto simp: convert_booleans_def map_of_foldl_update_col distinct_boolean_cols
      in_columns_iff)

lemma update_col_absent: "c \<notin> set (columns f) \<Longrightarrow> update_col c g f = f"
proof -
  assume a: "c \<notin> set (columns f)"
  have "map (\<lambda>(n, vs). if n = c then (n, g vs) else (n, vs)) (cols f) = cols f"
    using a by (intro map_idI) (force simp: columns_def)
  then show ?thesis by (simp add: update_col_def)
qed

lemma foldl_update_col_guarded:
  "foldl (\<lambda>d col. if col \<in> set (columns d) then update_col col g d else d) f cs =
   foldl (\<lambda>d col. update_col col g d) f cs"
  by (induction cs arbitrary: f) (simp_all add: update_col_absent)

lemma distinct_float_cols: "distinct float_cols"
  by (simp add: float_cols_def)

lemma map_of_convert_floats:
  "map_of (cols (convert_floats L f)) c =
     (if c \<in> set float_cols then map_option (map (to_numeric L)) (map_of (cols f) c)
      else map_of (cols f) c)"
  by (simp add: convert_floats_def foldl_update_col_guarded map_of_foldl_update_col
      distinct_float_cols)

lemma nrows_foldl_update_col [simp]:
  "nrows (foldl (\<lambda>d col. update_col col g d) f cs) = nrows f"
  by (induction cs arbitrary: f) simp_all

lemma nrows_steps [simp]:
  "nrows (drop_identifiers f) = nrows f"
  "nrows (convert_booleans f) = nrows f"
  "nrows (convert_floats L f) = nrows f"
  by (simp_all add: drop_identifiers_def convert_booleans_def convert_floats_def
      foldl_update_col_guarded)









subsection \<open>Step 4\<close>






lemma encode_ncap_map_of:
  assumes "encode_ncap L d = Inr d'" and "c \<noteq> ''ncap_rating''" and "c \<noteq> ''NCAP_Rating''"
  shows "map_of (cols d') c = map_of (cols d) c"
  using assms
  by (auto simp: encode_ncap_def Let_def ncap_as_str_def map_of_drop_columns
      map_of_assign_col map_of_update_col split: option.splits sum.splits)





subsection \<open>Step 5\<close>

lemma set_encoded_pieces:
  "set (encoded_pieces L d cs) =
     {dummies_1d L c vs | c vs. c \<in> set cs \<and> map_of (cols d) c = Some vs}"
  by (induction cs) (auto split: option.splits)

lemma get_dummies_pieces:
  assumes "get_dummies L d cs = Inr d'"
  shows "nrows d' = nrows d"
    and "cols d' =
      concat ((if length cs = length (cols d) then [] else [cols (drop_columns cs d)])
              @ encoded_pieces L d cs)"
  using assms by (auto simp: get_dummies_def Let_def split: if_splits)

lemma one_hot_error: "one_hot L d = Inl e \<Longrightarrow> e = ValueError ''No objects to concatenate''"
  by (auto simp: one_hot_def get_dummies_def Let_def split: if_splits)


lemma some_column_kept:
  assumes "c \<in> set (columns d)" and "c \<notin> set cs" and "distinct cs"
    and "set cs \<subseteq> set (columns d)"
  shows "length cs \<noteq> length (cols d)"
proof -
  have "set cs \<subseteq> set (columns d) - {c}" using assms by auto
  then have "card (set cs) \<le> card (set (columns d) - {c})"
    by (intro card_mono) auto
  also have "\<dots> < card (set (columns d))"
    using assms(1) by (intro card_Diff1_less) auto
  also have "\<dots> \<le> length (columns d)" by (rule card_length)
  finally show ?thesis
    using distinct_card [OF assms(3)] by (simp add: columns_def)
qed

lemma distinct_categorical_cols: "distinct categorical_cols"
  by (simp add: categorical_cols_def)

lemma one_hot_kept:
  assumes "one_hot L d = Inr d'" and "map_of (cols d) c = Some vs"
    and "c \<notin> set categorical_cols"
  shows "map_of (cols d') c = Some vs"
proof -
  let ?cs = "filter (\<lambda>c. c \<in> set (columns d)) categorical_cols"
  have "c \<in> set (columns d)" using assms(2) by (simp add: in_columns_iff)
  moreover have "c \<notin> set ?cs" using assms(3) by simp
  ultimately have "length ?cs \<noteq> length (cols d)"
    by (rule some_column_kept) (auto simp: distinct_categorical_cols)
  with get_dummies_pieces(2) [OF assms(1) [unfolded one_hot_def]]
  obtain rest where "cols d' = cols (drop_columns ?cs d) @ rest" by auto
  moreover have "map_of (cols (drop_columns ?cs d)) c = Some vs"
    using assms(2,3) by (simp add: map_of_drop_columns)
  ultimately show ?thesis by (simp add: map_add_Some_iff)
qed

lemma dummies_1d_names:
  "(n, vs') \<in> set (dummies_1d L c vs) \<Longrightarrow> (\<exists>s. n = c @ CHR ''_'' # s) \<and> length vs' = length vs"
  by (auto simp: dummies_1d_def Let_def)

lemma one_hot_columns:
  assumes "one_hot L d = Inr d'" and "(n, vs') \<in> set (cols d')"
  shows "(n, vs') \<in> set (cols d)
       \<or> (\<exists>c \<in> set categorical_cols. \<exists>vs s. map_of (cols d) c = Some vs \<and> n = c @ CHR ''_'' # s
             \<and> length vs' = length vs)"
proof -
  let ?cs = "filter (\<lambda>c. c \<in> set (columns d)) categorical_cols"
  from get_dummies_pieces(2) [OF assms(1) [unfolded one_hot_def]] assms(2)
  consider "(n, vs') \<in> set (cols (drop_columns ?cs d))"
    | c vs where "c \<in> set ?cs" "map_of (cols d) c = Some vs" "(n, vs') \<in> set (dummies_1d L c vs)"
    by (auto simp: set_encoded_pieces split: if_splits)
  then show ?thesis
  proof cases
    case 1
    then show ?thesis by (auto simp: drop_columns_def)
  next
    case 2
    with dummies_1d_names [OF 2(3)] show ?thesis by auto
  qed
qed

lemma target_not_dummy: "c \<in> set categorical_cols \<Longrightarrow> target_col \<noteq> c @ CHR ''_'' # s"
  by (auto simp: categorical_cols_def target_col_def)

lemma one_hot_target_absent:
  assumes "one_hot L d = Inr d'" and "map_of (cols d) target_col = None"
  shows "map_of (cols d') target_col = None"
proof (rule ccontr)
  assume "map_of (cols d') target_col \<noteq> None"
  then obtain vs' where "(target_col, vs') \<in> set (cols d')"
    by (auto dest: map_of_SomeD)
  from one_hot_columns [OF assms(1) this] assms(2) show False
    by (force simp: map_of_eq_None_iff dest: target_not_dummy)
qed




subsection \<open>The whole function\<close>



lemma astype_int_value_error: "astype_int L v = Inl e \<Longrightarrow> \<exists>msg. e = ValueError msg"
  by (cases v) (auto split: option.splits)

lemma astype_int_all_value_error:
  "astype_int_all L vs = Inl e \<Longrightarrow> \<exists>msg. e = ValueError msg"
  by (induction vs) (auto split: sum.splits dest: astype_int_value_error)

lemma boolean_col_role:
  assumes "c \<in> set boolean_cols"
  shows "c \<noteq> ''policy_id''" "c \<notin> set float_cols" "c \<noteq> ''ncap_rating''"
    "c \<noteq> ''NCAP_Rating''" "c \<notin> set categorical_cols" "c \<noteq> target_col"
  using assms
  by (auto simp: boolean_cols_def float_cols_def categorical_cols_def target_col_def)

lemma target_col_role:
  "target_col \<noteq> ''policy_id''" "target_col \<notin> set boolean_cols"
  "target_col \<notin> set float_cols" "target_col \<noteq> ''ncap_rating''"
  "target_col \<noteq> ''NCAP_Rating''" "target_col \<notin> set categorical_cols"
  by (simp_all add: boolean_cols_def float_cols_def categorical_cols_def target_col_def)


lemma process_steps:
  "process L t =
     (case encode_ncap L (steps123 L t) of
        Inl e \<Rightarrow> Inl e
      | Inr d \<Rightarrow> (case one_hot L d of Inl e \<Rightarrow> Inl e | Inr d' \<Rightarrow> separate_target L d'))"
  by (simp add: process_def steps123_def)

lemma steps123_other:
  assumes "c \<noteq> ''policy_id''" and "c \<notin> set boolean_cols" and "c \<notin> set float_cols"
  shows "map_of (cols (steps123 L t)) c = map_of (cols t) c"
  using assms
  by (simp add: steps123_def map_of_convert_floats map_of_convert_booleans
      map_of_drop_identifiers)

lemma yes_no_filled: "(fillna_False \<circ> map_yes_no) v = CBool (v = CStr ''Yes'')"
  by (cases v) (simp_all add: fillna_False_def)

lemma steps123_boolean:
  assumes "c \<in> set boolean_cols"
  shows "map_of (cols (steps123 L t)) c =
           map_option (map (\<lambda>v. CBool (v = CStr ''Yes''))) (map_of (cols t) c)"
proof -
  have "map (fillna_False \<circ> map_yes_no) = map (\<lambda>v. CBool (v = CStr ''Yes''))"
    by (rule arg_cong [where f = map]) (rule ext, rule yes_no_filled)
  then show ?thesis
    using assms boolean_col_role(1,2) [OF assms]
    by (simp add: steps123_def map_of_convert_floats map_of_convert_booleans
        map_of_drop_identifiers)
qed






text \<open>The label column travels unchanged up to step 6.\<close>

lemma target_before_step6:
  assumes "encode_ncap L (steps123 L t) = Inr d" and "one_hot L d = Inr d'"
  shows "map_of (cols d') target_col = map_of (cols t) target_col"
proof -
  have d: "map_of (cols d) target_col = map_of (cols t) target_col"
    using encode_ncap_map_of [OF assms(1) target_col_role(4,5)]
    by (simp add: steps123_other target_col_role)
  show ?thesis
  proof (cases "map_of (cols t) target_col")
    case None
    with d one_hot_target_absent [OF assms(2)] show ?thesis by simp
  next
    case (Some ls)
    with d one_hot_kept [OF assms(2) _ target_col_role(6)] show ?thesis by simp
  qed
qed

lemma separate_target_Inr_iff:
  "separate_target L d = Inr (X, y) \<longleftrightarrow>
     (\<exists>ls. map_of (cols d) target_col = Some ls \<and> astype_int_all L ls = Inr y
            \<and> X = drop_columns [target_col] d)"
  by (auto simp: separate_target_def Let_def split: option.splits sum.splits)

lemma process_Inr_iff:
  "process L t = Inr (X, y) \<longleftrightarrow>
     (\<exists>d d' ls. encode_ncap L (steps123 L t) = Inr d \<and> one_hot L d = Inr d'
        \<and> map_of (cols t) target_col = Some ls \<and> astype_int_all L ls = Inr y
        \<and> X = drop_columns [target_col] d')"
proof -
  have "process L t = Inr (X, y) \<longleftrightarrow>
     (\<exists>d d'. encode_ncap L (steps123 L t) = Inr d \<and> one_hot L d = Inr d'
        \<and> separate_target L d' = Inr (X, y))"
    by (auto simp: process_steps split: sum.splits)
  also have "\<dots> \<longleftrightarrow> (\<exists>d d' ls. encode_ncap L (steps123 L t) = Inr d \<and> one_hot L d = Inr d'
        \<and> map_of (cols t) target_col = Some ls \<and> astype_int_all L ls = Inr y
        \<and> X = drop_columns [target_col] d')"
    using target_before_step6 by (fastforce simp: separate_target_Inr_iff)
  finally show ?thesis .
qed








text \<open>
  C8.  For every boolean column present in the argument, the column of the same name in
  the returned \<open>X\<close> holds \<open>True\<close> where the argument holds the text \<^verbatim>\<open>Yes\<close> and \<open>False\<close>
  everywhere else: for \<^verbatim>\<open>No\<close>, for a missing value and for any other value.
\<close>

theorem boolean_columns_normalized:
  assumes "process L t = Inr (X, y)" and "c \<in> set boolean_cols"
    and "map_of (cols t) c = Some vs"
  shows "map_of (cols X) c = Some (map (\<lambda>v. CBool (v = CStr ''Yes'')) vs)"
proof -
  from assms(1) obtain d d' where
    d: "encode_ncap L (steps123 L t) = Inr d" and d': "one_hot L d = Inr d'"
    and X: "X = drop_columns [target_col] d'"
    unfolding process_Inr_iff by blast
  note role = boolean_col_role [OF assms(2)]
  have "map_of (cols (steps123 L t)) c = Some (map (\<lambda>v. CBool (v = CStr ''Yes'')) vs)"
    using assms(2,3) by (simp add: steps123_boolean)
  then have "map_of (cols d) c = Some (map (\<lambda>v. CBool (v = CStr ''Yes'')) vs)"
    using encode_ncap_map_of [OF d role(3,4)] by simp
  then have "map_of (cols d') c = Some (map (\<lambda>v. CBool (v = CStr ''Yes'')) vs)"
    by (rule one_hot_kept [OF d' _ role(5)])
  then show ?thesis
    using role(6) by (simp add: X map_of_drop_columns)
qed

text \<open>
  C9.  \<^verbatim>\<open>process\<close> writes only into objects it has made itself.  After the call,
  whether it returns or raises, the argument and every other object that existed before
  are as they were; the returned \<open>X\<close> and \<open>y\<close> are two new objects, and they hold the
  result that \<^const>\<open>process\<close> computes from the value of the argument.
\<close>

theorem process_leaves_argument:
  assumes "frame_at h df = Some f" and "process_heap L h df = (r, h')"
  shows "frame_at h' df = Some f
       \<and> (\<forall>a < length h. h' ! a = h ! a)
       \<and> (case r of
            Inl e \<Rightarrow> process L f = Inl e
          | Inr (X, y) \<Rightarrow>
              length h \<le> X \<and> length h \<le> y \<and> X \<noteq> y
              \<and> (\<exists>Xf ys. process L f = Inr (Xf, ys) \<and> frame_at h' X = Some Xf
                    \<and> y < length h' \<and> h' ! y = Series ys))"
proof -
  have df: "df < length h" using assms(1) by (auto simp: frame_at_def split: if_splits)
  show ?thesis
    using assms df
    by (auto simp: process_heap_def alloc_def Let_def process_steps steps123_def
        separate_target_def frame_at_def nth_append
        split: sum.splits option.splits if_splits)
qed


subsection \<open>Examples\<close>








theorem boolean_columns_normalized_witness:
  "process decimal esc_table =
     Inr (\<lparr> nrows = 4,
            cols = [(''is_esc'', [CBool True, CBool False, CBool False, CBool False])] \<rparr>,
          [0, 1, 0, 0])
   \<and> ''is_esc'' \<in> set boolean_cols
   \<and> map_of (cols esc_table) ''is_esc'' = Some [CStr ''Yes'', CStr ''No'', CNull, CStr ''yes'']
   \<and> map_of (cols (fst (projr (process decimal esc_table)))) ''is_esc''
       = Some [CBool True, CBool False, CBool False, CBool False]"
proof -
  have p: "process decimal esc_table =
     Inr (\<lparr> nrows = 4,
            cols = [(''is_esc'', [CBool True, CBool False, CBool False, CBool False])] \<rparr>,
          [0, 1, 0, 0])"
    by code_simp
  have b: "''is_esc'' \<in> set boolean_cols" by code_simp
  have m: "map_of (cols esc_table) ''is_esc''
             = Some [CStr ''Yes'', CStr ''No'', CNull, CStr ''yes'']"
    by code_simp
  from boolean_columns_normalized [OF p b m] p b m show ?thesis by simp
qed

theorem process_leaves_argument_witness:
  "frame_at [Frame raw_data] 0 = Some raw_data
   \<and> fst (process_heap decimal [Frame raw_data] 0) = Inr (3, 4)
   \<and> frame_at (snd (process_heap decimal [Frame raw_data] 0)) 0 = Some raw_data
   \<and> frame_at (snd (process_heap decimal [Frame raw_data] 0)) 3
       = Some (fst (projr (process decimal raw_data)))"
proof -
  have f: "frame_at [Frame raw_data] 0 = Some raw_data" by (simp add: frame_at_def)
  have r: "fst (process_heap decimal [Frame raw_data] 0) = Inr (3, 4)" by code_simp
  have "process_heap decimal [Frame raw_data] 0
          = (Inr (3, 4), snd (process_heap decimal [Frame raw_data] 0))"
    using r by (simp add: prod_eq_iff)
  from process_leaves_argument [OF f this] f r show ?thesis by auto
qed

end
